theory Spec2Isabelle
  imports Complex_Main
begin

section \<open>Compile-time gated logging (logging/logging.c)\<close>

text \<open>
  The file under verification is a single C translation unit whose behaviour is fixed by
  preprocessor macros. The embedding below takes the build configuration (what the command
  line defines with \<^verbatim>\<open>-D\<close>) as an explicit record, turns every macro into a function of
  that record, and threads the bytes written to standard output through every statement.
  A leading underscore is not a legal start of an Isabelle name, so the macro
  \<^verbatim>\<open>_log_internal\<close> is called \<open>log_internal\<close> and the macro \<^verbatim>\<open>_log\<close> is called
  \<open>log_macro\<close> (plain \<open>log\<close> is the logarithm of the library).
\<close>

subsection \<open>Severity levels\<close>

definition LOG_DEBUG :: int where "LOG_DEBUG = 5"
definition LOG_INFO :: int where "LOG_INFO = 4"
definition LOG_WARNING :: int where "LOG_WARNING = 3"
definition LOG_ERROR :: int where "LOG_ERROR = 2"
definition LOG_FATAL :: int where "LOG_FATAL = 1"
definition LOG_NONE :: int where "LOG_NONE = 0"

subsection \<open>Build configuration\<close>

text \<open>
  \<open>SERIAL_VERBOSITY\<close> is the value given with \<^verbatim>\<open>-DSERIAL_VERBOSITY=...\<close> (every target of the
  Makefile gives one). Each \<open>D_..._SMART_SWITCH\<close> field is \<open>Some v\<close> when the command line
  defines that macro as the integer literal \<open>v\<close>, and \<open>None\<close> when it does not define it.
  \<open>FILE\<close> is the path handed to the compiler, which is what \<^verbatim>\<open>__FILE__\<close> expands to.
\<close>

record build =
  SERIAL_VERBOSITY :: int
  D_LOG_DEBUG_SMART_SWITCH :: "int option"
  D_LOG_INFO_SMART_SWITCH :: "int option"
  D_LOG_WARNING_SMART_SWITCH :: "int option"
  D_LOG_ERROR_SMART_SWITCH :: "int option"
  D_LOG_FATAL_SMART_SWITCH :: "int option"
  FILE :: string

text \<open>The five \<^verbatim>\<open>#ifndef ... #define ... #endif\<close> blocks of lines 30 to 44.\<close>

definition LOG_DEBUG_SMART_SWITCH :: "build \<Rightarrow> int" where
  "LOG_DEBUG_SMART_SWITCH b =
     (case D_LOG_DEBUG_SMART_SWITCH b of None \<Rightarrow> LOG_DEBUG | Some v \<Rightarrow> v)"

definition LOG_INFO_SMART_SWITCH :: "build \<Rightarrow> int" where
  "LOG_INFO_SMART_SWITCH b =
     (case D_LOG_INFO_SMART_SWITCH b of None \<Rightarrow> LOG_INFO | Some v \<Rightarrow> v)"

definition LOG_WARNING_SMART_SWITCH :: "build \<Rightarrow> int" where
  "LOG_WARNING_SMART_SWITCH b =
     (case D_LOG_WARNING_SMART_SWITCH b of None \<Rightarrow> LOG_WARNING | Some v \<Rightarrow> v)"

definition LOG_ERROR_SMART_SWITCH :: "build \<Rightarrow> int" where
  "LOG_ERROR_SMART_SWITCH b =
     (case D_LOG_ERROR_SMART_SWITCH b of None \<Rightarrow> LOG_ERROR | Some v \<Rightarrow> v)"

definition LOG_FATAL_SMART_SWITCH :: "build \<Rightarrow> int" where
  "LOG_FATAL_SMART_SWITCH b =
     (case D_LOG_FATAL_SMART_SWITCH b of None \<Rightarrow> LOG_FATAL | Some v \<Rightarrow> v)"

text \<open>
  The override slots of lines 30 to 44 in the order of the source: for each, the field of
  its command-line definition, the macro, and the level the macro falls back to.
\<close>

definition smart_switches :: "((build \<Rightarrow> int option) \<times> (build \<Rightarrow> int) \<times> int) list" where
  "smart_switches =
     [(D_LOG_DEBUG_SMART_SWITCH, LOG_DEBUG_SMART_SWITCH, LOG_DEBUG),
      (D_LOG_INFO_SMART_SWITCH, LOG_INFO_SMART_SWITCH, LOG_INFO),
      (D_LOG_WARNING_SMART_SWITCH, LOG_WARNING_SMART_SWITCH, LOG_WARNING),
      (D_LOG_ERROR_SMART_SWITCH, LOG_ERROR_SMART_SWITCH, LOG_ERROR),
      (D_LOG_FATAL_SMART_SWITCH, LOG_FATAL_SMART_SWITCH, LOG_FATAL)]"

definition max_debug_levels :: int where "max_debug_levels = 9"

subsection \<open>The output primitive: \<^verbatim>\<open>printf\<close>\<close>

text \<open>
  \<^verbatim>\<open>printf\<close> belongs to the C library, not to the repository. A fragment of it is modelled
  here: ordinary characters, \<^verbatim>\<open>%%\<close>, and \<^verbatim>\<open>%s\<close>, \<^verbatim>\<open>%d\<close>, \<^verbatim>\<open>%i\<close> with the optional flag \<^verbatim>\<open>-\<close>, a
  decimal field width and a decimal precision; this covers every call the file makes. On
  a call inside the fragment the model either gives the text written or says that C leaves
  the call undefined (a directive cut short by the end of the string, a directive with no
  argument left, a string where an \<^verbatim>\<open>int\<close> is read or an \<^verbatim>\<open>int\<close> where a string is read). On
  every other call (another flag or conversion, a length modifier, an argument of another
  kind) the fragment gives no answer, and what is written is taken from the C library the
  program is linked with, which is a parameter of the model. Arguments beyond those the
  format reads are ignored, as in C. Strings hold no NUL character.

  An argument of \<^verbatim>\<open>printf\<close> is a string, a value of type \<^verbatim>\<open>int\<close>, or any other value; the
  fragment reads the first two kinds only.
\<close>

datatype 'v arg = Arg_str string | Arg_int int | Arg_other 'v

text \<open>
  The rest of the C library: what \<^verbatim>\<open>printf\<close> writes for a format and its arguments, \<open>None\<close>
  where the call is undefined.
\<close>

type_synonym 'v library = "string \<Rightarrow> 'v arg list \<Rightarrow> string option"

datatype formatted = Written string | Undefined | Unmodelled

definition written_after :: "string \<Rightarrow> formatted \<Rightarrow> formatted" where
  "written_after s r =
     (case r of Written t \<Rightarrow> Written (s @ t) | Undefined \<Rightarrow> Undefined | Unmodelled \<Rightarrow> Unmodelled)"

record conv =
  left :: bool
  width :: nat
  prec :: "nat option"

datatype phase = In_flags | In_width | In_prec

definition conv0 :: conv where
  "conv0 = \<lparr>left = False, width = 0, prec = None\<rparr>"

definition space :: char where "space = CHR '' ''"
definition newline :: char where "newline = CHR 0x0A"

definition is_digit :: "char \<Rightarrow> bool" where
  "is_digit c = (c \<in> set ''0123456789'')"

definition digit_value :: "char \<Rightarrow> nat" where
  "digit_value c = of_char c - 48"

definition digit :: "nat \<Rightarrow> char" where
  "digit d = ''0123456789'' ! (d mod 10)"

fun decimal :: "nat \<Rightarrow> string" where
  "decimal n = (if n < 10 then [digit n] else decimal (n div 10) @ [digit (n mod 10)])"

declare decimal.simps [simp del]

text \<open>Padding with spaces up to the field width, on the right when the flag \<^verbatim>\<open>-\<close> is set.\<close>

definition pad :: "conv \<Rightarrow> string \<Rightarrow> string" where
  "pad cv s =
     (if left cv then s @ replicate (width cv - length s) space
      else replicate (width cv - length s) space @ s)"

text \<open>\<^verbatim>\<open>%s\<close>: at most \<open>prec\<close> characters of the argument, then padded.\<close>

definition conv_s :: "conv \<Rightarrow> string \<Rightarrow> string" where
  "conv_s cv s = pad cv (case prec cv of None \<Rightarrow> s | Some p \<Rightarrow> take p s)"

text \<open>
  \<^verbatim>\<open>%d\<close>: the digits of the absolute value, at least \<open>prec\<close> of them (no digit at all for
  the value 0 with precision 0), a minus sign for a negative value, then padded.
\<close>

definition conv_d :: "conv \<Rightarrow> int \<Rightarrow> string" where
  "conv_d cv n =
     (let ds = (if n = 0 \<and> prec cv = Some 0 then [] else decimal (nat \<bar>n\<bar>));
          zs = replicate ((case prec cv of None \<Rightarrow> 1 | Some p \<Rightarrow> p) - length ds) (CHR ''0'')
      in pad cv ((if n < 0 then ''-'' else []) @ zs @ ds))"

fun vformat :: "string \<Rightarrow> 'v arg list \<Rightarrow> formatted"
  and directive :: "phase \<Rightarrow> conv \<Rightarrow> string \<Rightarrow> 'v arg list \<Rightarrow> formatted" where
  "vformat [] args = Written []"
| "vformat (c # cs) args =
     (if c = CHR ''%'' then directive In_flags conv0 cs args
      else written_after [c] (vformat cs args))"
| "directive ph cv [] args = Undefined"
| "directive ph cv (c # cs) args =
     (if ph = In_flags \<and> c = CHR ''-'' then directive In_flags (cv\<lparr>left := True\<rparr>) cs args
      else if ph = In_flags \<and> c = CHR ''0'' then Unmodelled
      else if ph \<noteq> In_prec \<and> is_digit c then
        directive In_width (cv\<lparr>width := 10 * width cv + digit_value c\<rparr>) cs args
      else if ph \<noteq> In_prec \<and> c = CHR ''.'' then
        directive In_prec (cv\<lparr>prec := Some 0\<rparr>) cs args
      else if ph = In_prec \<and> is_digit c then
        directive In_prec
          (cv\<lparr>prec := Some (10 * (case prec cv of None \<Rightarrow> 0 | Some p \<Rightarrow> p) + digit_value c)\<rparr>)
          cs args
      else if c = CHR ''s'' then
        (case args of
           Arg_str s # rest \<Rightarrow> written_after (conv_s cv s) (vformat cs rest)
         | Arg_other v # rest \<Rightarrow> Unmodelled
         | _ \<Rightarrow> Undefined)
      else if c = CHR ''d'' \<or> c = CHR ''i'' then
        (case args of
           Arg_int n # rest \<Rightarrow> written_after (conv_d cv n) (vformat cs rest)
         | Arg_other v # rest \<Rightarrow> Unmodelled
         | _ \<Rightarrow> Undefined)
      else if c = CHR ''%'' \<and> ph = In_flags \<and> cv = conv0 then
        written_after [c] (vformat cs args)
      else Unmodelled)"

text \<open>
  What a call of \<^verbatim>\<open>printf\<close> writes, \<open>None\<close> where the call is undefined: the answer of the
  fragment, and that of the library where the fragment has none.
\<close>

definition libc_printf :: "'v library \<Rightarrow> string \<Rightarrow> 'v arg list \<Rightarrow> string option" where
  "libc_printf lib fmt args =
     (case vformat fmt args of
        Written s \<Rightarrow> Some s
      | Undefined \<Rightarrow> None
      | Unmodelled \<Rightarrow> lib fmt args)"

text \<open>
  A library for examples: it writes what the C library writes for \<^verbatim>\<open>printf("%05d", 42)\<close>, and
  is asked for no other call below.
\<close>

definition example_library :: "unit library" where
  "example_library fmt args =
     (if fmt = ''%05d'' \<and> args = [Arg_int 42] then Some ''00042'' else None)"

subsection \<open>Results of a statement\<close>

text \<open>
  A statement either fails or leaves standard output in a new state. \<open>Does_not_compile\<close>
  is the failure of the build at that statement; \<open>Undefined_behaviour\<close> is a call of
  \<^verbatim>\<open>printf\<close> that C leaves undefined.
\<close>

datatype failure = Does_not_compile | Undefined_behaviour

definition printf :: "'v library \<Rightarrow> string \<Rightarrow> 'v arg list \<Rightarrow> string \<Rightarrow> failure + string" where
  "printf lib fmt args out =
     (case libc_printf lib fmt args of
        None \<Rightarrow> Inl Undefined_behaviour
      | Some s \<Rightarrow> Inr (out @ s))"

definition and_then :: "failure + 'a \<Rightarrow> ('a \<Rightarrow> failure + 'b) \<Rightarrow> failure + 'b" where
  "and_then r f = (case r of Inl e \<Rightarrow> Inl e | Inr x \<Rightarrow> f x)"

subsection \<open>The macros\<close>

text \<open>
  \<^verbatim>\<open>_log_internal(fmt, ...)\<close>, lines 52 to 65: three calls of \<^verbatim>\<open>printf\<close>, or the empty
  statement when \<^verbatim>\<open>SERIAL_VERBOSITY <= LOG_NONE\<close>. \<open>line\<close> is what \<^verbatim>\<open>__LINE__\<close> expands to
  at the place of the call.
\<close>

definition log_internal ::
  "'v library \<Rightarrow> build \<Rightarrow> int \<Rightarrow> string \<Rightarrow> 'v arg list \<Rightarrow> string \<Rightarrow> failure + string" where
  "log_internal lib b line fmt args out =
     (if SERIAL_VERBOSITY b \<le> LOG_NONE then Inr out
      else
        and_then (printf lib ''[%-30.30s: %-4d] '' [Arg_str (FILE b), Arg_int line] out) (\<lambda>out1.
        and_then (printf lib fmt args out1) (\<lambda>out2.
        printf lib [newline] [] out2)))"

text \<open>
  The argument written for \<open>level\<close>, after macro expansion of the argument itself:
  \<^item> \<open>Literal n\<close>: an integer literal in decimal notation of value \<open>n\<close> (for a negative \<open>n\<close>,
    a minus sign and the literal of \<open>- n\<close>);
  \<^item> \<open>Variable x v\<close>: the name \<open>x\<close> of a variable, which holds \<open>v\<close> at run time;
  \<^item> \<open>Expression tok g v\<close>: any other argument, of several tokens, given by the spelling
    \<open>tok\<close> of its last token, the value \<open>g\<close> that the argument has at run time once \<^verbatim>\<open>.0\<close> is
    pasted onto that token (\<open>None\<close> when the argument with that token made a floating
    constant is no expression of C, as \<^verbatim>\<open>i%2\<close> made \<^verbatim>\<open>i%2.0\<close>), and the value \<open>v\<close> that the
    argument as written has at run time. With \<^verbatim>\<open>i\<close> holding 3, the argument \<^verbatim>\<open>i*1\<close> is
    \<open>Expression ''1'' (Some 3) 3\<close>.
\<close>

datatype level_arg = Literal int | Variable string int | Expression string "real option" int

definition last_token :: "level_arg \<Rightarrow> string" where
  "last_token a =
     (case a of
        Literal n \<Rightarrow> decimal (nat \<bar>n\<bar>)
      | Variable x v \<Rightarrow> x
      | Expression tok g v \<Rightarrow> tok)"

definition level_value :: "level_arg \<Rightarrow> int" where
  "level_value a = (case a of Literal n \<Rightarrow> n | Variable x v \<Rightarrow> v | Expression tok g v \<Rightarrow> v)"

text \<open>The value of a sequence of digits read in decimal.\<close>

definition number :: "string \<Rightarrow> nat" where
  "number ds = foldl (\<lambda>a c. 10 * a + digit_value c) 0 ds"

text \<open>
  The operator \<^verbatim>\<open>##\<close> of line 72 joins the spelling of the last token of the argument and
  \<^verbatim>\<open>.0\<close>. What results is a floating constant when the token is a sequence of digits,
  with the value of the digits; joined to anything else it is no token, or no constant,
  and the build stops there.
\<close>

definition paste_point_zero :: "string \<Rightarrow> real option" where
  "paste_point_zero tok =
     (if tok \<noteq> [] \<and> list_all is_digit tok then Some (of_nat (number tok)) else None)"

text \<open>
  \<^verbatim>\<open>ENFORCE_INTEGER_LITERAL(literal)\<close>, line 72: the value of the argument with \<^verbatim>\<open>.0\<close> pasted
  onto its last token, when that compiles (lines 67 to 71 of the source: a literal 4
  becomes 4.0, a name \<^verbatim>\<open>i\<close> becomes \<^verbatim>\<open>i.0\<close>, which does not compile).
\<close>

definition ENFORCE_INTEGER_LITERAL :: "level_arg \<Rightarrow> failure + real" where
  "ENFORCE_INTEGER_LITERAL a =
     (case paste_point_zero (last_token a) of
        None \<Rightarrow> Inl Does_not_compile
      | Some x \<Rightarrow>
          (case a of
             Literal n \<Rightarrow> Inr (if n < 0 then - x else x)
           | Variable s v \<Rightarrow> Inr x
           | Expression tok g v \<Rightarrow>
               (case g of None \<Rightarrow> Inl Does_not_compile | Some y \<Rightarrow> Inr y)))"

text \<open>
  \<^verbatim>\<open>_log(level, fmt, ...)\<close>, lines 84 to 89: the statement
  \<^verbatim>\<open>if (ENFORCE_INTEGER_LITERAL(level) && (level <= SERIAL_VERBOSITY)) { _log_internal(...); }\<close>.
\<close>

definition log_macro ::
  "'v library \<Rightarrow> build \<Rightarrow> level_arg \<Rightarrow> int \<Rightarrow> string \<Rightarrow> 'v arg list \<Rightarrow> string \<Rightarrow>
     failure + string" where
  "log_macro lib b level line fmt args out =
     and_then (ENFORCE_INTEGER_LITERAL level) (\<lambda>guard.
       if guard \<noteq> 0 \<and> level_value level \<le> SERIAL_VERBOSITY b
       then log_internal lib b line fmt args out
       else Inr out)"

text \<open>
  \<^verbatim>\<open>LOGi\<close> and \<^verbatim>\<open>LOGf\<close>, lines 91 to 97; \<^verbatim>\<open>LOGi\<close> is redefined as the empty statement when
  \<^verbatim>\<open>SERIAL_VERBOSITY < LOG_INFO\<close>.
\<close>

definition LOGi ::
  "'v library \<Rightarrow> build \<Rightarrow> int \<Rightarrow> string \<Rightarrow> 'v arg list \<Rightarrow> string \<Rightarrow> failure + string" where
  "LOGi lib b line fmt args out =
     (if SERIAL_VERBOSITY b < LOG_INFO then Inr out
      else log_macro lib b (Literal LOG_INFO) line fmt args out)"

definition LOGf ::
  "'v library \<Rightarrow> build \<Rightarrow> int \<Rightarrow> string \<Rightarrow> 'v arg list \<Rightarrow> string \<Rightarrow> failure + string" where
  "LOGf lib b line fmt args out = log_macro lib b (Literal LOG_FATAL) line fmt args out"



subsection \<open>The program\<close>

text \<open>
  Lines 99 and 100 define \<^verbatim>\<open>FORBIDDEN_STATEMENTS\<close> and undefine it at once, so both
  \<^verbatim>\<open>#ifdef FORBIDDEN_STATEMENTS\<close> blocks of \<^verbatim>\<open>main\<close> are left out of the program.
\<close>

definition FORBIDDEN_STATEMENTS :: bool where
  "FORBIDDEN_STATEMENTS = False"

text \<open>
  The loop of lines 148 to 150,
  \<^verbatim>\<open>for (char i = 3; i < max_debug_levels; ++i) { _log(i, "Hello debug level %i", i); }\<close>,
  entered with the current value of \<open>i\<close>.
\<close>

function hello_loop :: "'v library \<Rightarrow> build \<Rightarrow> int \<Rightarrow> string \<Rightarrow> failure + string" where
  "hello_loop lib b i out =
     (if i < max_debug_levels then
        (case log_macro lib b (Variable ''i'' i) 149 ''Hello debug level %i'' [Arg_int i] out of
           Inl e \<Rightarrow> Inl e
         | Inr out1 \<Rightarrow> hello_loop lib b (i + 1) out1)
      else Inr out)"
  by pat_completeness auto
termination
  by (relation "measure (\<lambda>(lib, b, i, out). nat (max_debug_levels - i))") auto

declare hello_loop.simps [simp del]

text \<open>\<^verbatim>\<open>main\<close>, lines 102 to 153: the new state of standard output and the exit status.\<close>

definition main :: "'v library \<Rightarrow> build \<Rightarrow> string \<Rightarrow> failure + string \<times> int" where
  "main lib b out0 =
     and_then (log_macro lib b (Literal LOG_INFO) 113 ''Log test!'' [] out0) (\<lambda>out1.
     and_then (log_macro lib b (Literal (LOG_DEBUG_SMART_SWITCH b)) 115
                 ''Log test of module!'' [] out1) (\<lambda>out2.
     and_then (if FORBIDDEN_STATEMENTS
               then log_macro lib b (Variable ''level'' LOG_INFO) 119 ''Log test!'' [] out2
               else Inr out2) (\<lambda>out3.
     and_then (LOGi lib b 125 ''Check precompiler output!'' [] out3) (\<lambda>out4.
     and_then (if FORBIDDEN_STATEMENTS then hello_loop lib b 3 out4 else Inr out4) (\<lambda>out5.
     Inr (out5, 0))))))"

subsection \<open>The targets of the Makefile\<close>

definition make_all :: build where
  "make_all =
     \<lparr>SERIAL_VERBOSITY = LOG_FATAL, D_LOG_DEBUG_SMART_SWITCH = None,
      D_LOG_INFO_SMART_SWITCH = None, D_LOG_WARNING_SMART_SWITCH = None,
      D_LOG_ERROR_SMART_SWITCH = None, D_LOG_FATAL_SMART_SWITCH = None,
      FILE = ''logging.c''\<rparr>"

definition make_module :: build where
  "make_module =
     \<lparr>SERIAL_VERBOSITY = LOG_INFO, D_LOG_DEBUG_SMART_SWITCH = Some LOG_INFO,
      D_LOG_INFO_SMART_SWITCH = None, D_LOG_WARNING_SMART_SWITCH = None,
      D_LOG_ERROR_SMART_SWITCH = None, D_LOG_FATAL_SMART_SWITCH = None,
      FILE = ''logging.c''\<rparr>"

definition make_no_output :: build where
  "make_no_output =
     \<lparr>SERIAL_VERBOSITY = LOG_NONE, D_LOG_DEBUG_SMART_SWITCH = None,
      D_LOG_INFO_SMART_SWITCH = None, D_LOG_WARNING_SMART_SWITCH = None,
      D_LOG_ERROR_SMART_SWITCH = None, D_LOG_FATAL_SMART_SWITCH = None,
      FILE = ''logging.c''\<rparr>"

subsection \<open>The output line as the specification words it\<close>

text \<open>
  The specification describes an emitted line as: an opening bracket, the location label
  padded or truncated to 30 characters, a colon and a space, the line number padded to 4
  characters, a closing bracket and a space, the formatted message, a newline. The three
  definitions below follow those words (padding is on the right) and are compared with
  what the macros write.
\<close>

definition label_field :: "string \<Rightarrow> string" where
  "label_field label = take 30 label @ replicate (30 - length label) space"

definition number_field :: "int \<Rightarrow> string" where
  "number_field n =
     (let s = (if n < 0 then ''-'' else []) @ decimal (nat \<bar>n\<bar>)
      in s @ replicate (4 - length s) space)"

definition log_line :: "string \<Rightarrow> int \<Rightarrow> string \<Rightarrow> string" where
  "log_line label n msg =
     ''['' @ label_field label @ '': '' @ number_field n @ ''] '' @ msg @ [newline]"

text \<open>A text is exactly one line when it ends in its only newline.\<close>

definition one_line :: "string \<Rightarrow> bool" where
  "one_line w = (w \<noteq> [] \<and> last w = newline \<and> count_list w newline = 1)"

section \<open>Properties\<close>

subsection \<open>Auxiliary facts\<close>

lemmas LOG_defs = LOG_DEBUG_def LOG_INFO_def LOG_WARNING_def LOG_ERROR_def LOG_FATAL_def
  LOG_NONE_def

lemmas SMART_SWITCH_defs = LOG_DEBUG_SMART_SWITCH_def LOG_INFO_SMART_SWITCH_def
  LOG_WARNING_SMART_SWITCH_def LOG_ERROR_SMART_SWITCH_def LOG_FATAL_SMART_SWITCH_def

lemma and_then_Inr: "and_then (Inr x) f = f x"
  by (simp add: and_then_def)


lemma decimal_length: "Suc 0 \<le> length (decimal n)"
  by (induction n rule: decimal.induct) (subst decimal.simps, simp)

lemma digit_in_digits: "digit d \<in> set ''0123456789''"
  unfolding digit_def by (rule nth_mem) simp

lemma digit_no_newline: "digit d \<noteq> newline"
  using digit_in_digits [of d] by (auto simp add: newline_def)

lemma decimal_no_newline: "newline \<notin> set (decimal n)"
proof (induction n rule: decimal.induct)
  case (1 n)
  show ?case
  proof (cases "n < 10")
    case True
    then show ?thesis
      using digit_no_newline [of n] by (subst decimal.simps) auto
  next
    case False
    then show ?thesis
      using 1 digit_no_newline [of "n mod 10"] by (subst decimal.simps) auto
  qed
qed

lemma decimal_digits: "list_all is_digit (decimal n)"
proof (induction n rule: decimal.induct)
  case (1 n)
  have d: "is_digit (digit k)" for k
    using digit_in_digits [of k] by (simp only: is_digit_def)
  show ?case
  proof (cases "n < 10")
    case True
    then show ?thesis
      using d [of n] by (subst decimal.simps) simp
  next
    case False
    then show ?thesis
      using 1 d [of "n mod 10"] by (subst decimal.simps) simp
  qed
qed

lemma digit_value_nth: "k < 10 \<Longrightarrow> digit_value (''0123456789'' ! k) = k"
proof -
  assume "k < 10"
  then have "k = 0 \<or> k = 1 \<or> k = 2 \<or> k = 3 \<or> k = 4 \<or> k = 5 \<or> k = 6 \<or> k = 7 \<or> k = 8 \<or> k = 9"
    by arith
  then show ?thesis
    by (elim disjE) (simp_all add: digit_value_def)
qed

lemma digit_value_digit: "digit_value (digit d) = d mod 10"
  unfolding digit_def by (rule digit_value_nth) simp

lemma number_snoc: "number (ds @ [c]) = 10 * number ds + digit_value c"
  by (simp add: number_def)

lemma number_decimal: "number (decimal n) = n"
proof (induction n rule: decimal.induct)
  case (1 n)
  show ?case
  proof (cases "n < 10")
    case True
    then show ?thesis
      by (subst decimal.simps) (simp add: number_def digit_value_digit)
  next
    case False
    then have "number (decimal n) = 10 * number (decimal (n div 10)) + digit_value (digit (n mod 10))"
      by (subst decimal.simps) (simp add: number_snoc)
    also have "\<dots> = 10 * (n div 10) + n mod 10"
      using 1 False by (simp add: digit_value_digit)
    finally show ?thesis
      by simp
  qed
qed

lemma paste_decimal: "paste_point_zero (decimal n) = Some (of_nat n)"
  using decimal_length [of n] decimal_digits [of n]
  by (auto simp add: paste_point_zero_def number_decimal)

lemma ENFORCE_Literal: "ENFORCE_INTEGER_LITERAL (Literal n) = Inr (of_int n)"
  by (simp add: ENFORCE_INTEGER_LITERAL_def last_token_def paste_decimal)



lemma conv_s_label: "conv_s \<lparr>left = True, width = 30, prec = Some 30\<rparr> f = label_field f"
  by (cases "length f \<le> 30") (simp_all add: conv_s_def pad_def label_field_def min_def)

lemma conv_d_number: "conv_d \<lparr>left = True, width = 4, prec = None\<rparr> n = number_field n"
  using decimal_length [of "nat \<bar>n\<bar>"]
  by (simp add: conv_d_def pad_def number_field_def Let_def)

lemma header_format:
  "vformat ''[%-30.30s: %-4d] '' [Arg_str f, Arg_int n] =
     Written (''['' @ label_field f @ '': '' @ number_field n @ ''] '')"
  by (simp add: conv0_def is_digit_def digit_value_def conv_s_label conv_d_number
      written_after_def)

lemma newline_format: "vformat [newline] [] = Written [newline]"
  by (simp add: newline_def written_after_def)

lemma printf_Written:
  "vformat fmt args = Written s \<Longrightarrow> printf lib fmt args out = Inr (out @ s)"
  by (simp add: printf_def libc_printf_def)

lemma printf_Some:
  "libc_printf lib fmt args = Some s \<Longrightarrow> printf lib fmt args out = Inr (out @ s)"
  by (simp add: printf_def)

lemma log_internal_writes:
  assumes "LOG_NONE < SERIAL_VERBOSITY b" and "libc_printf lib fmt args = Some msg"
  shows "log_internal lib b line fmt args out = Inr (out @ log_line (FILE b) line msg)"
proof -
  have "log_internal lib b line fmt args out =
      and_then (printf lib ''[%-30.30s: %-4d] '' [Arg_str (FILE b), Arg_int line] out) (\<lambda>out1.
        and_then (printf lib fmt args out1) (\<lambda>out2. printf lib [newline] [] out2))"
    using assms(1) unfolding log_internal_def by (simp only: not_le [symmetric] if_False)
  also have "\<dots> =
      Inr (((out @ ''['' @ label_field (FILE b) @ '': '' @ number_field line @ ''] '') @ msg)
        @ [newline])"
    by (simp only: printf_Written [OF header_format] printf_Some [OF assms(2)]
        printf_Written [OF newline_format] and_then_Inr)
  also have "\<dots> = Inr (out @ log_line (FILE b) line msg)"
    by (simp only: log_line_def append_assoc)
  finally show ?thesis .
qed

lemma log_internal_silent:
  "SERIAL_VERBOSITY b \<le> LOG_NONE \<Longrightarrow> log_internal lib b line fmt args out = Inr out"
  by (simp add: log_internal_def)

lemma log_macro_Literal:
  "log_macro lib b (Literal L) line fmt args out =
     (if L \<noteq> 0 \<and> L \<le> SERIAL_VERBOSITY b then log_internal lib b line fmt args out
      else Inr out)"
  by (simp add: log_macro_def ENFORCE_Literal level_value_def and_then_Inr)


lemma log_macro_admitted:
  assumes "LOG_FATAL \<le> L" and "L \<le> SERIAL_VERBOSITY b"
    and "libc_printf lib fmt args = Some msg"
  shows "log_macro lib b (Literal L) line fmt args out =
    Inr (out @ log_line (FILE b) line msg)"
proof -
  from assms(1, 2) have "L \<noteq> 0" and "LOG_NONE < SERIAL_VERBOSITY b"
    by (simp_all add: LOG_defs)
  with assms(2, 3) show ?thesis
    by (simp only: log_macro_Literal log_internal_writes simp_thms if_True)
qed

lemma log_macro_suppressed:
  "\<not> L \<le> SERIAL_VERBOSITY b \<Longrightarrow> log_macro lib b (Literal L) line fmt args out = Inr out"
  by (simp add: log_macro_Literal)

lemma plain_text_format:
  "CHR ''%'' \<notin> set s \<Longrightarrow> libc_printf lib s args = Some s"
proof -
  assume "CHR ''%'' \<notin> set s"
  then have "vformat s args = Written s"
    by (induction s) (auto simp add: written_after_def)
  then show ?thesis
    by (simp add: libc_printf_def)
qed

lemma label_field_no_newline:
  "newline \<notin> set (take 30 label) \<Longrightarrow> newline \<notin> set (label_field label)"
  by (simp add: label_field_def space_def newline_def)

lemma number_field_no_newline: "newline \<notin> set (number_field n)"
  using decimal_no_newline [of "nat \<bar>n\<bar>"]
  by (auto simp add: number_field_def Let_def space_def newline_def)

lemma log_line_one_line:
  assumes "newline \<notin> set (take 30 label)" and "newline \<notin> set msg"
  shows "one_line (log_line label n msg)"
proof -
  have "count_list (label_field label) newline = 0"
    using assms(1) label_field_no_newline by (simp add: count_list_0_iff)
  moreover have "count_list (number_field n) newline = 0"
    using number_field_no_newline by (simp add: count_list_0_iff)
  moreover have "count_list msg newline = 0"
    using assms(2) by (simp add: count_list_0_iff)
  ultimately show ?thesis
    by (simp add: one_line_def log_line_def newline_def)
qed

lemma log_line_nonempty: "log_line label n msg \<noteq> []"
  by (simp add: log_line_def)

lemma label_field_length: "length (label_field label) = 30"
  by (simp add: label_field_def)

lemma number_field_length: "4 \<le> length (number_field n)"
  by (simp add: number_field_def Let_def)

subsection \<open>Level NONE at the call\<close>

text \<open>
  Claim C8. Under every threshold, the maximal one included, a call of the gated macro at
  level NONE writes nothing: the literal-forcing guard turns the level 0 into the floating
  constant 0.0, which is false as a condition, so the comparison with the threshold (which
  0 would pass under every threshold from NONE upwards) cannot admit the call.
\<close>

theorem level_none_never_emits:
  "ENFORCE_INTEGER_LITERAL (Literal LOG_NONE) = Inr 0 \<and>
   log_macro lib b (Literal LOG_NONE) line fmt args out = Inr out \<and>
   log_macro lib (b\<lparr>SERIAL_VERBOSITY := LOG_DEBUG\<rparr>) (Literal LOG_NONE) line fmt args out =
     Inr out"
  by (simp add: log_macro_Literal ENFORCE_Literal LOG_NONE_def)

subsection \<open>The wrappers\<close>

text \<open>
  Claim C9. Under every threshold, \<^verbatim>\<open>LOGf(fmt, ...)\<close> does what \<^verbatim>\<open>_log(LOG_FATAL, fmt, ...)\<close>
  does and \<^verbatim>\<open>LOGi(fmt, ...)\<close> does what \<^verbatim>\<open>_log(LOG_INFO, fmt, ...)\<close> does. In particular,
  when the threshold is below INFO the empty redefinition of \<^verbatim>\<open>LOGi\<close> and the gated form
  both leave standard output as it was.
\<close>

theorem wrappers_equal_gated_log:
  "LOGf lib b line fmt args out = log_macro lib b (Literal LOG_FATAL) line fmt args out \<and>
   LOGi lib b line fmt args out = log_macro lib b (Literal LOG_INFO) line fmt args out \<and>
   (SERIAL_VERBOSITY b < LOG_INFO \<longrightarrow>
      LOGi lib b line fmt args out = Inr out \<and>
      log_macro lib b (Literal LOG_INFO) line fmt args out = Inr out)"
  by (simp add: LOGf_def LOGi_def log_macro_Literal)

theorem wrappers_equal_gated_log_witness:
  "SERIAL_VERBOSITY make_all < LOG_INFO \<and>
   LOGi example_library make_all 125 ''Check precompiler output!'' [] [] = Inr [] \<and>
   log_macro example_library make_all (Literal LOG_INFO) 125 ''Check precompiler output!'' [] []
     = Inr []"
proof -
  have h: "SERIAL_VERBOSITY make_all < LOG_INFO"
    by (simp add: make_all_def LOG_defs)
  show ?thesis
    using h wrappers_equal_gated_log [where lib = example_library and b = make_all
        and line = 125 and fmt = "''Check precompiler output!''" and args = "[]" and out = "[]"]
    by simp
qed

subsection \<open>Threshold NONE\<close>

text \<open>
  Claim C4. When the threshold of the build is NONE, every call writes nothing, at every
  level, FATAL included: the gated macro at any literal level, both wrappers, and with
  them the whole of \<^verbatim>\<open>main\<close>, which returns 0.
\<close>

theorem threshold_none_suppresses_all:
  assumes "SERIAL_VERBOSITY b = LOG_NONE"
  shows "log_macro lib b (Literal L) line fmt args out = Inr out \<and>
         log_macro lib b (Literal LOG_FATAL) line fmt args out = Inr out \<and>
         LOGi lib b line fmt args out = Inr out \<and>
         LOGf lib b line fmt args out = Inr out \<and>
         main lib b out = Inr (out, 0)"
proof -
  have silent: "log_macro lib b (Literal K) l f a w = Inr w" for K l f a w
    using assms by (simp add: log_macro_Literal log_internal_silent)
  have "LOGi lib b line fmt args out = Inr out"
    using assms by (simp add: LOGi_def LOG_defs)
  moreover have "LOGf lib b line fmt args out = Inr out"
    by (simp add: LOGf_def silent)
  moreover have "main lib b out = Inr (out, 0)"
    using assms
    by (simp add: main_def silent and_then_Inr FORBIDDEN_STATEMENTS_def LOGi_def LOG_defs)
  ultimately show ?thesis
    by (simp add: silent)
qed

theorem threshold_none_suppresses_all_witness:
  "SERIAL_VERBOSITY make_no_output = LOG_NONE \<and>
   log_macro example_library make_no_output (Literal LOG_FATAL) 50 ''Log test of module!'' [] []
     = Inr [] \<and>
   main example_library make_no_output [] = Inr ([], 0)"
proof -
  have h: "SERIAL_VERBOSITY make_no_output = LOG_NONE"
    by (simp add: make_no_output_def)
  show ?thesis
    using h threshold_none_suppresses_all [OF h, where lib = example_library
        and L = LOG_FATAL and line = 50 and fmt = "''Log test of module!''" and args = "[]"
        and out = "[]"]
    by simp
qed

subsection \<open>The default build\<close>

text \<open>
  Claim C10. Built as the target \<^verbatim>\<open>all\<close> of the Makefile builds it (threshold FATAL, no
  switch defined), \<^verbatim>\<open>main\<close> adds nothing to standard output and returns 0: the call at
  INFO, the call at the DEBUG switch (which falls back to DEBUG) and the call of \<^verbatim>\<open>LOGi\<close>
  are each suppressed.
\<close>

theorem main_default_build_silent:
  "main lib make_all out = Inr (out, 0) \<and>
   main lib make_all [] = Inr ([], 0) \<and>
   log_macro lib make_all (Literal LOG_INFO) 113 ''Log test!'' [] out = Inr out \<and>
   LOG_DEBUG_SMART_SWITCH make_all = LOG_DEBUG \<and>
   log_macro lib make_all (Literal (LOG_DEBUG_SMART_SWITCH make_all)) 115
     ''Log test of module!'' [] out = Inr out \<and>
   LOGi lib make_all 125 ''Check precompiler output!'' [] out = Inr out"
  by (simp add: main_def make_all_def log_macro_Literal LOGi_def LOG_DEBUG_SMART_SWITCH_def
      FORBIDDEN_STATEMENTS_def and_then_Inr LOG_defs)

subsection \<open>Admission by level and threshold\<close>

text \<open>
  Claim C1, as stated: for every literal level and threshold of the enumeration the call
  writes output exactly when the level is at most the threshold, and what it writes is
  exactly one line. It fails in three places. At level NONE under threshold DEBUG the level
  0 is at most the threshold, and the call writes nothing. A call at FATAL under threshold
  FATAL whose message holds a newline writes two lines. So does one whose location label
  holds a newline among its first 30 characters.
\<close>

theorem admits_iff_le_counterexample:
  "LOG_NONE \<le> SERIAL_VERBOSITY (make_all\<lparr>SERIAL_VERBOSITY := LOG_DEBUG\<rparr>) \<and>
   log_macro example_library (make_all\<lparr>SERIAL_VERBOSITY := LOG_DEBUG\<rparr>) (Literal LOG_NONE) 42
     ''Log test!'' [] [] = Inr [] \<and>
   log_macro example_library make_all (Literal LOG_FATAL) 42 (''a'' @ [newline] @ ''b'') [] [] =
     Inr (''[logging.c                     : 42  ] a'' @ [newline] @ ''b'' @ [newline]) \<and>
   \<not> one_line (''[logging.c                     : 42  ] a'' @ [newline] @ ''b'' @ [newline]) \<and>
   log_macro example_library (make_all\<lparr>FILE := ''a'' @ [newline] @ ''.c''\<rparr>) (Literal LOG_FATAL)
     42 ''Log test!'' [] [] =
     Inr (''[a'' @ [newline] @ ''.c                          : 42  ] Log test!'' @ [newline]) \<and>
   \<not> one_line (''[a'' @ [newline] @ ''.c                          : 42  ] Log test!''
     @ [newline])"
proof -
  have fatal: "LOG_FATAL \<le> SERIAL_VERBOSITY (make_all\<lparr>FILE := f\<rparr>)" for f
    by (simp add: make_all_def)
  have "log_macro example_library (make_all\<lparr>SERIAL_VERBOSITY := LOG_DEBUG\<rparr>) (Literal LOG_NONE)
      42 ''Log test!'' [] [] = Inr []"
    by (simp add: log_macro_Literal LOG_defs)
  moreover have "log_macro example_library make_all (Literal LOG_FATAL) 42
      (''a'' @ [newline] @ ''b'') [] [] =
      Inr ([] @ log_line (FILE make_all) 42 (''a'' @ [newline] @ ''b''))"
    by (rule log_macro_admitted [OF order_refl _ plain_text_format])
      (simp_all add: make_all_def newline_def)
  moreover have "log_line (FILE make_all) 42 (''a'' @ [newline] @ ''b'') =
      ''[logging.c                     : 42  ] a'' @ [newline] @ ''b'' @ [newline]"
    by code_simp
  moreover have "log_macro example_library (make_all\<lparr>FILE := ''a'' @ [newline] @ ''.c''\<rparr>)
      (Literal LOG_FATAL) 42 ''Log test!'' [] [] =
      Inr ([] @ log_line (FILE (make_all\<lparr>FILE := ''a'' @ [newline] @ ''.c''\<rparr>)) 42 ''Log test!'')"
    by (rule log_macro_admitted [OF order_refl fatal plain_text_format]) simp
  moreover have "log_line (FILE (make_all\<lparr>FILE := ''a'' @ [newline] @ ''.c''\<rparr>)) 42 ''Log test!'' =
      ''[a'' @ [newline] @ ''.c                          : 42  ] Log test!'' @ [newline]"
    by code_simp
  moreover have "\<not> one_line (''[logging.c                     : 42  ] a'' @ [newline] @ ''b''
      @ [newline])"
    by code_simp
  moreover have "\<not> one_line (''[a'' @ [newline] @ ''.c                          : 42  ] Log test!''
      @ [newline])"
    by code_simp
  ultimately show ?thesis
    by (simp add: LOG_defs)
qed

text \<open>
  Claim C1, amended: for every literal level from FATAL upwards, every threshold, and a
  call of \<^verbatim>\<open>printf\<close> on the format and its arguments that is defined, the call writes
  output exactly when the level is at most the threshold. What it writes then is appended
  to standard output, is not empty, and is exactly one line whenever neither the first 30
  characters of the location label nor the formatted message holds a newline. Otherwise
  standard output stays as it was.
\<close>

theorem admits_iff_le_from_fatal:
  assumes "LOG_FATAL \<le> L" and "libc_printf lib fmt args = Some msg"
  shows "(L \<le> SERIAL_VERBOSITY b \<longrightarrow>
            (\<exists>w. log_macro lib b (Literal L) line fmt args out = Inr (out @ w) \<and> w \<noteq> [] \<and>
                 (newline \<notin> set (take 30 (FILE b)) \<and> newline \<notin> set msg \<longrightarrow> one_line w))) \<and>
         (\<not> L \<le> SERIAL_VERBOSITY b \<longrightarrow>
            log_macro lib b (Literal L) line fmt args out = Inr out)"
proof (intro conjI impI)
  assume le: "L \<le> SERIAL_VERBOSITY b"
  have "log_macro lib b (Literal L) line fmt args out =
      Inr (out @ log_line (FILE b) line msg)"
    by (rule log_macro_admitted [OF assms(1) le assms(2)])
  then show "\<exists>w. log_macro lib b (Literal L) line fmt args out = Inr (out @ w) \<and> w \<noteq> [] \<and>
      (newline \<notin> set (take 30 (FILE b)) \<and> newline \<notin> set msg \<longrightarrow> one_line w)"
    using log_line_nonempty log_line_one_line by blast
next
  assume "\<not> L \<le> SERIAL_VERBOSITY b"
  then show "log_macro lib b (Literal L) line fmt args out = Inr out"
    by (rule log_macro_suppressed)
qed

theorem admits_iff_le_from_fatal_witness:
  "LOG_FATAL \<le> LOG_FATAL \<and>
   libc_printf example_library ''%05d'' [Arg_int 42] = Some ''00042'' \<and>
   LOG_FATAL \<le> SERIAL_VERBOSITY make_all \<and>
   newline \<notin> set (take 30 (FILE make_all)) \<and> newline \<notin> set ''00042'' \<and>
   log_macro example_library make_all (Literal LOG_FATAL) 1 ''%05d'' [Arg_int 42] [] \<noteq> Inr [] \<and>
   LOG_FATAL \<le> LOG_INFO \<and> \<not> LOG_INFO \<le> SERIAL_VERBOSITY make_all \<and>
   log_macro example_library make_all (Literal LOG_INFO) 1 ''%05d'' [Arg_int 42] [] = Inr []"
proof -
  have h1: "LOG_FATAL \<le> LOG_FATAL"
    and h2: "libc_printf example_library ''%05d'' [Arg_int 42] = Some ''00042''"
    and h3: "LOG_FATAL \<le> SERIAL_VERBOSITY make_all" and h4: "LOG_FATAL \<le> LOG_INFO"
    and h5: "\<not> LOG_INFO \<le> SERIAL_VERBOSITY make_all"
    and h6: "newline \<notin> set (take 30 (FILE make_all))" and h7: "newline \<notin> set ''00042''"
    by (simp_all add: make_all_def LOG_defs newline_def libc_printf_def example_library_def)
  show ?thesis
    using h1 h2 h3 h4 h5 h6 h7
      admits_iff_le_from_fatal [OF h1 h2, where b = make_all and line = 1 and out = "[]"]
      admits_iff_le_from_fatal [OF h4 h2, where b = make_all and line = 1 and out = "[]"]
    by auto
qed

subsection \<open>The layout of an emitted line\<close>

text \<open>
  Claim C2, as stated, ends in an example: under threshold FATAL, the call at FATAL in
  \<^verbatim>\<open>mod.c\<close>, line 50, with the message \<^verbatim>\<open>Log test of module!\<close> writes the line the claim
  quotes (24 blanks after the label, two before and one after the number). The macros do
  not write that line.
\<close>

theorem quoted_line_counterexample:
  "log_macro example_library (make_all\<lparr>FILE := ''mod.c''\<rparr>) (Literal LOG_FATAL) 50
     ''Log test of module!'' [] []
     \<noteq> Inr (''[mod.c                        :  50 ] Log test of module!'' @ [newline])"
proof -
  have "log_macro example_library (make_all\<lparr>FILE := ''mod.c''\<rparr>) (Literal LOG_FATAL) 50
      ''Log test of module!'' [] [] =
      Inr ([] @ log_line (FILE (make_all\<lparr>FILE := ''mod.c''\<rparr>)) 50 ''Log test of module!'')"
    by (rule log_macro_admitted [OF order_refl _ plain_text_format])
      (simp_all add: make_all_def)
  moreover have
    "length (log_line (FILE (make_all\<lparr>FILE := ''mod.c''\<rparr>)) 50 ''Log test of module!'') = 59"
    by (simp add: log_line_def label_field_def number_field_def decimal.simps digit_def)
  ultimately show ?thesis
    by auto
qed

text \<open>
  Claim C2, amended: an admitted call (literal level from FATAL upwards and at most the
  threshold, the call of \<^verbatim>\<open>printf\<close> on the format and its arguments defined) appends
  exactly: an opening bracket, the location label cut to its first 30 characters and
  padded on the right with blanks to 30 characters, a colon and a blank, the line number in
  decimal padded on the right with blanks to at least 4 characters, a closing bracket and
  a blank, the formatted message, a newline. Under threshold FATAL the call at FATAL in
  \<^verbatim>\<open>mod.c\<close>, line 50, with the message \<^verbatim>\<open>Log test of module!\<close> writes the label, 25 blanks,
  a colon, one blank, \<^verbatim>\<open>50\<close>, two blanks, the closing bracket, a blank, the message and a
  newline.
\<close>

theorem admitted_line_layout:
  assumes "LOG_FATAL \<le> L" and "L \<le> SERIAL_VERBOSITY b"
    and "libc_printf lib fmt args = Some msg"
  shows "log_macro lib b (Literal L) line fmt args out =
           Inr (out @ ''['' @ label_field (FILE b) @ '': '' @ number_field line @ ''] '' @ msg
                  @ [newline]) \<and>
         length (label_field (FILE b)) = 30 \<and> 4 \<le> length (number_field line) \<and>
         log_macro lib (make_all\<lparr>FILE := ''mod.c''\<rparr>) (Literal LOG_FATAL) 50
           ''Log test of module!'' [] [] =
           Inr (''[mod.c                         : 50  ] Log test of module!'' @ [newline])"
proof -
  have "log_macro lib b (Literal L) line fmt args out =
      Inr (out @ ''['' @ label_field (FILE b) @ '': '' @ number_field line @ ''] '' @ msg
        @ [newline])"
    using log_macro_admitted [OF assms] by (simp only: log_line_def)
  moreover have "log_macro lib (make_all\<lparr>FILE := ''mod.c''\<rparr>) (Literal LOG_FATAL) 50
      ''Log test of module!'' [] [] =
      Inr ([] @ log_line (FILE (make_all\<lparr>FILE := ''mod.c''\<rparr>)) 50 ''Log test of module!'')"
    by (rule log_macro_admitted [OF order_refl _ plain_text_format])
      (simp_all add: make_all_def)
  moreover have "log_line (FILE (make_all\<lparr>FILE := ''mod.c''\<rparr>)) 50 ''Log test of module!'' =
      ''[mod.c                         : 50  ] Log test of module!'' @ [newline]"
    by code_simp
  ultimately show ?thesis
    by (simp add: label_field_length number_field_length)
qed

theorem admitted_line_layout_witness:
  "LOG_FATAL \<le> LOG_FATAL \<and> LOG_FATAL \<le> SERIAL_VERBOSITY make_all \<and>
   libc_printf example_library ''%05d'' [Arg_int 42] = Some ''00042'' \<and>
   log_macro example_library make_all (Literal LOG_FATAL) 1 ''%05d'' [Arg_int 42] [] =
     Inr (''['' @ label_field ''logging.c'' @ '': '' @ number_field 1 @ ''] '' @ ''00042''
       @ [newline])"
proof -
  have h1: "LOG_FATAL \<le> LOG_FATAL" and h2: "LOG_FATAL \<le> SERIAL_VERBOSITY make_all"
    and h3: "libc_printf example_library ''%05d'' [Arg_int 42] = Some ''00042''"
    by (simp_all add: make_all_def libc_printf_def example_library_def)
  have "FILE make_all = ''logging.c''"
    by (simp add: make_all_def)
  then show ?thesis
    using h1 h2 h3 admitted_line_layout [OF h1 h2 h3, where line = 1 and out = "[]"]
    by simp
qed

subsection \<open>The switches of a module\<close>

text \<open>
  Claim C6. There are exactly five switches, one for each level other than NONE, and a
  switch that the build does not define has the value of its own level, so that a call
  through it is gated exactly as a call at that level.
\<close>

theorem unset_switch_is_own_level:
  "map (\<lambda>(D, M, l). l) smart_switches =
     [LOG_DEBUG, LOG_INFO, LOG_WARNING, LOG_ERROR, LOG_FATAL] \<and>
   length smart_switches = 5 \<and>
   (\<forall>(D, M, l) \<in> set smart_switches.
      D b = None \<longrightarrow>
        M b = l \<and>
        log_macro lib b (Literal (M b)) line fmt args out =
          log_macro lib b (Literal l) line fmt args out)"
  by (simp add: smart_switches_def SMART_SWITCH_defs)

theorem unset_switch_is_own_level_witness:
  "(D_LOG_DEBUG_SMART_SWITCH, LOG_DEBUG_SMART_SWITCH, LOG_DEBUG) \<in> set smart_switches \<and>
   D_LOG_DEBUG_SMART_SWITCH make_all = None \<and>
   LOG_DEBUG_SMART_SWITCH make_all = LOG_DEBUG \<and>
   log_macro example_library make_all (Literal (LOG_DEBUG_SMART_SWITCH make_all)) 115
     ''Log test of module!'' [] [] =
     log_macro example_library make_all (Literal LOG_DEBUG) 115 ''Log test of module!'' [] []"
proof -
  have h1: "(D_LOG_DEBUG_SMART_SWITCH, LOG_DEBUG_SMART_SWITCH, LOG_DEBUG) \<in> set smart_switches"
    by (simp add: smart_switches_def)
  have h2: "D_LOG_DEBUG_SMART_SWITCH make_all = None"
    by (simp add: make_all_def)
  show ?thesis
    using h1 h2
      unset_switch_is_own_level [where lib = example_library and b = make_all and line = 115
        and fmt = "''Log test of module!''" and args = "[]" and out = "[]"]
    by auto
qed

text \<open>
  Claim C5, as stated: with the switch for INFO set to DEBUG in a module, the calls at the
  INFO switch in that module are admitted even under threshold FATAL. They are not: the
  call is gated at level DEBUG, which is above FATAL, and writes nothing.
\<close>

theorem info_switch_debug_counterexample:
  "SERIAL_VERBOSITY (make_all\<lparr>D_LOG_INFO_SMART_SWITCH := Some LOG_DEBUG\<rparr>) = LOG_FATAL \<and>
   LOG_INFO_SMART_SWITCH (make_all\<lparr>D_LOG_INFO_SMART_SWITCH := Some LOG_DEBUG\<rparr>) = LOG_DEBUG \<and>
   log_macro example_library (make_all\<lparr>D_LOG_INFO_SMART_SWITCH := Some LOG_DEBUG\<rparr>)
     (Literal (LOG_INFO_SMART_SWITCH (make_all\<lparr>D_LOG_INFO_SMART_SWITCH := Some LOG_DEBUG\<rparr>)))
     113 ''Log test!'' [] [] = Inr []"
  by (simp add: log_macro_Literal LOG_INFO_SMART_SWITCH_def make_all_def LOG_defs)

text \<open>
  Claim C5, amended: a switch that a module defines as \<open>v\<close> replaces the level of the calls
  through that switch in that module, and the global threshold still decides: such a call
  is gated exactly as a call at the literal level \<open>v\<close>, admitted when \<open>v\<close> is not 0 and at
  most the threshold, suppressed otherwise. So a module shows its calls of one named level
  by setting that switch to a level the threshold admits, as the target \<^verbatim>\<open>module\<close> of the
  Makefile does (threshold INFO, DEBUG switch set to INFO): there the call at the DEBUG
  switch writes its line, while in a build with the same threshold and the switch left
  undefined the same call writes nothing.
\<close>

theorem set_switch_is_gated_at_its_value:
  "(\<forall>(D, M, l) \<in> set smart_switches.
      D b = Some v \<longrightarrow>
        M b = v \<and>
        log_macro lib b (Literal (M b)) line fmt args out =
          (if v \<noteq> LOG_NONE \<and> v \<le> SERIAL_VERBOSITY b
           then log_internal lib b line fmt args out
           else Inr out)) \<and>
   log_macro lib make_module (Literal (LOG_DEBUG_SMART_SWITCH make_module)) 115
     ''Log test of module!'' [] out =
     Inr (out @ log_line ''logging.c'' 115 ''Log test of module!'') \<and>
   log_macro lib (make_module\<lparr>D_LOG_DEBUG_SMART_SWITCH := None\<rparr>)
     (Literal (LOG_DEBUG_SMART_SWITCH (make_module\<lparr>D_LOG_DEBUG_SMART_SWITCH := None\<rparr>))) 115
     ''Log test of module!'' [] out = Inr out"
proof -
  have "log_macro lib make_module (Literal (LOG_DEBUG_SMART_SWITCH make_module)) 115
      ''Log test of module!'' [] out =
      Inr (out @ log_line (FILE make_module) 115 ''Log test of module!'')"
    by (rule log_macro_admitted [OF _ _ plain_text_format])
      (simp_all add: LOG_DEBUG_SMART_SWITCH_def make_module_def LOG_defs)
  moreover have "FILE make_module = ''logging.c''"
    by (simp add: make_module_def)
  moreover have "log_macro lib (make_module\<lparr>D_LOG_DEBUG_SMART_SWITCH := None\<rparr>)
      (Literal (LOG_DEBUG_SMART_SWITCH (make_module\<lparr>D_LOG_DEBUG_SMART_SWITCH := None\<rparr>))) 115
      ''Log test of module!'' [] out = Inr out"
    by (simp add: log_macro_Literal LOG_DEBUG_SMART_SWITCH_def make_module_def LOG_defs)
  ultimately show ?thesis
    by (simp add: smart_switches_def SMART_SWITCH_defs log_macro_Literal LOG_NONE_def)
qed

theorem set_switch_is_gated_at_its_value_witness:
  "(D_LOG_DEBUG_SMART_SWITCH, LOG_DEBUG_SMART_SWITCH, LOG_DEBUG) \<in> set smart_switches \<and>
   D_LOG_DEBUG_SMART_SWITCH make_module = Some LOG_INFO \<and>
   LOG_DEBUG_SMART_SWITCH make_module = LOG_INFO \<and>
   log_macro example_library make_module (Literal (LOG_DEBUG_SMART_SWITCH make_module)) 115
     ''Log test of module!'' [] [] =
     log_internal example_library make_module 115 ''Log test of module!'' [] []"
proof -
  have h1: "(D_LOG_DEBUG_SMART_SWITCH, LOG_DEBUG_SMART_SWITCH, LOG_DEBUG) \<in> set smart_switches"
    by (simp add: smart_switches_def)
  have h2: "D_LOG_DEBUG_SMART_SWITCH make_module = Some LOG_INFO"
    by (simp add: make_module_def)
  have h3: "LOG_INFO \<noteq> LOG_NONE \<and> LOG_INFO \<le> SERIAL_VERBOSITY make_module"
    by (simp add: make_module_def LOG_defs)
  show ?thesis
    using h1 h2 h3
      set_switch_is_gated_at_its_value [where lib = example_library and b = make_module
        and v = LOG_INFO and line = 115 and fmt = "''Log test of module!''" and args = "[]"
        and out = "[]"]
    by auto
qed

subsection \<open>A level that is not a literal\<close>




end
